theory Spec2Isabelle
  imports Main
begin

section \<open>Dates: the parts of JavaScript's Date and of Moment that the controller uses\<close>

text \<open>
  The cashflow controller handles dates in three shapes:
  \<^item> a JavaScript \<open>Date\<close> object or a Moment: an instant, counted in milliseconds since
    1970-01-01T00:00:00Z;
  \<^item> a string \<open>'YYYY-MM-DD'\<close> (what \<open>Moment(x).format('YYYY-MM-DD')\<close> returns): a calendar
    day, represented by its day count since 1970-01-01, which is in bijection with the
    well-formed strings of that format;
  \<^item> the calendar fields that \<open>getDate\<close>, \<open>getMonth\<close> and \<open>getYear\<close> read off an instant in
    the local time of the server.
  The local time of the server is a fixed offset \<open>tz\<close> from UTC, in milliseconds, positive
  to the east (daylight saving changes are not modelled). A date-only ISO string given to
  \<open>new Date\<close> is read as midnight UTC; the same string given to \<open>Moment\<close> is read as local
  midnight.
\<close>

type_synonym instant = int
type_synonym isodate = int

definition DAY :: int where
  "DAY = 86400000"

text \<open>A value that the code stores in a date field: a date string or a Date object.\<close>

datatype jsdate = DateStr isodate | DateObj instant

text \<open>The proleptic Gregorian calendar: (year, month 1..12, day 1..31) of a day count.\<close>

definition civil_from_days :: "int \<Rightarrow> int \<times> int \<times> int" where
  "civil_from_days n =
     (let z = n + 719468;
          era = z div 146097;
          doe = z - era * 146097;
          yoe = (doe - doe div 1460 + doe div 36524 - doe div 146096) div 365;
          doy = doe - (365 * yoe + yoe div 4 - yoe div 100);
          mp = (5 * doy + 2) div 153;
          d = doy - (153 * mp + 2) div 5 + 1;
          m = (if mp < 10 then mp + 3 else mp - 9);
          y = yoe + era * 400 + (if m \<le> 2 then 1 else 0)
      in (y, m, d))"

definition days_from_civil :: "int \<Rightarrow> int \<Rightarrow> int \<Rightarrow> int" where
  "days_from_civil y m d =
     (let y' = y - (if m \<le> 2 then 1 else 0);
          era = y' div 400;
          yoe = y' - era * 400;
          doy = (153 * (if m > 2 then m - 3 else m + 9) + 2) div 5 + d - 1;
          doe = yoe * 365 + yoe div 4 - yoe div 100 + doy
      in era * 146097 + doe - 719468)"

text \<open>\<open>new Date(x)\<close>: a date-only string is midnight UTC of that day; a Date is copied.\<close>

fun new_Date :: "jsdate \<Rightarrow> instant" where
  "new_Date (DateStr n) = n * DAY"
| "new_Date (DateObj t) = t"

text \<open>\<open>Moment(x)\<close> and \<open>Moment(x, 'YYYY-MM-DD')\<close>: a date string is local midnight of that day.\<close>

fun Moment :: "int \<Rightarrow> jsdate \<Rightarrow> instant" where
  "Moment tz (DateStr n) = n * DAY - tz"
| "Moment tz (DateObj t) = t"

text \<open>The local day an instant falls on, which is what \<open>format('YYYY-MM-DD')\<close> prints.\<close>

definition format_ymd :: "int \<Rightarrow> instant \<Rightarrow> isodate" where
  "format_ymd tz t = (t + tz) div DAY"

definition getFullYear :: "int \<Rightarrow> instant \<Rightarrow> int" where
  "getFullYear tz t = fst (civil_from_days (format_ymd tz t))"

definition getYear :: "int \<Rightarrow> instant \<Rightarrow> int" where
  "getYear tz t = getFullYear tz t - 1900"

definition getMonth :: "int \<Rightarrow> instant \<Rightarrow> int" where
  "getMonth tz t = fst (snd (civil_from_days (format_ymd tz t))) - 1"

definition getDate :: "int \<Rightarrow> instant \<Rightarrow> int" where
  "getDate tz t = snd (snd (civil_from_days (format_ymd tz t)))"

text \<open>Day of the week of a day count, Sunday = 0 (1970-01-01 was a Thursday).\<close>

definition weekday :: "isodate \<Rightarrow> int" where
  "weekday n = (n + 4) mod 7"

text \<open>
  \<open>startOf('week')\<close> and \<open>endOf('week')\<close> in Moment's default locale, whose weeks run from
  Sunday 00:00:00.000 to Saturday 23:59:59.999 local time; \<open>add(7, 'days')\<close>.
\<close>

definition startOf_week :: "int \<Rightarrow> instant \<Rightarrow> instant" where
  "startOf_week tz t = (let n = format_ymd tz t in (n - weekday n) * DAY - tz)"

definition endOf_week :: "int \<Rightarrow> instant \<Rightarrow> instant" where
  "endOf_week tz t = startOf_week tz t + 7 * DAY - 1"

definition add_days :: "int \<Rightarrow> instant \<Rightarrow> instant" where
  "add_days k t = t + k * DAY"

section \<open>Data model\<close>

text \<open>
  A row of the \<open>period\<close> table has an \<open>id\<close>; a week built by \<open>getWeeks\<close> has a \<open>week\<close> number
  and no \<open>id\<close> (reading it gives \<open>undefined\<close>, here \<open>None\<close>).
\<close>

record period =
  id_field :: "int option"
  week :: "int option"
  start_date :: jsdate
  end_date :: jsdate

text \<open>
  A row returned by \<open>queryIncomeExpense\<close>, with the columns the controller reads. Amounts
  are exact integers (the smallest unit of the enterprise currency); the rounding of
  JavaScript's floating point numbers is not modelled.
\<close>

record posting =
  trans_id :: string
  trans_date :: jsdate
  period_id :: int
  label :: string
  debit_equiv :: int
  credit_equiv :: int
  currency_id :: int
  origin_id :: int
  transactionType :: string

record periodicFlow =
  pf_period :: period
  pf_flows :: "posting list"

record grouped =
  g_period :: period
  incomes :: "posting list"
  expenses :: "posting list"

section \<open>Grouping the postings\<close>

text \<open>
  \<open>groupByPeriod(periods, flows, weekly)\<close>: one bucket per period, in the order of the
  periods; inside a bucket the postings keep the order of \<open>flows\<close>. The flag is used for
  its truthiness only.
\<close>

definition in_period :: "bool \<Rightarrow> period \<Rightarrow> posting \<Rightarrow> bool" where
  "in_period weekly p f =
     (if weekly then
        (let transDate = new_Date (trans_date f);
             startDate = new_Date (start_date p);
             endDate = new_Date (end_date p)
         in transDate \<le> endDate \<and> transDate \<ge> startDate)
      else id_field p = Some (period_id f))"

definition groupByPeriod :: "period list \<Rightarrow> posting list \<Rightarrow> bool \<Rightarrow> periodicFlow list" where
  "groupByPeriod periods flows weekly =
     map (\<lambda>p. \<lparr>pf_period = p, pf_flows = filter (in_period weekly p) flows\<rparr>) periods"

text \<open>\<open>groupingIncomeExpenseByPeriod(periodicFlows)\<close>.\<close>

definition groupingIncomeExpenseByPeriod :: "periodicFlow list \<Rightarrow> grouped list" where
  "groupingIncomeExpenseByPeriod periodicFlows =
     map (\<lambda>pf. \<lparr>g_period = pf_period pf,
                incomes = filter (\<lambda>posting. debit_equiv posting > 0) (pf_flows pf),
                expenses = filter (\<lambda>posting. credit_equiv posting > 0) (pf_flows pf)\<rparr>)
       periodicFlows"

section \<open>Weeks\<close>

text \<open>
  \<open>getWeeks(dateFrom, dateTo)\<close>, both arguments being \<open>'YYYY-MM-DD'\<close> strings. The body of
  the \<open>do ... while\<close> loop is \<open>weeks_loop\<close>: it pushes a week and then tests the condition.
  The counter \<open>inc\<close> is a constant 0, so every week has number 1.
\<close>

function weeks_loop :: "int \<Rightarrow> instant \<Rightarrow> isodate \<Rightarrow> period list" where
  "weeks_loop tz first dateTo =
     (let first1 = startOf_week tz first;
          last = endOf_week tz first1;
          w = \<lparr>id_field = None, week = Some (0 + 1),
               start_date = DateObj first1, end_date = DateObj last\<rparr>;
          first2 = add_days 7 first1
      in w # (if first2 \<le> new_Date (DateStr dateTo) then weeks_loop tz first2 dateTo else []))"
  by pat_completeness auto
termination
proof (relation "measure (\<lambda>(tz, first, dateTo). nat (dateTo * DAY - first + 1))")
  show "wf (measure (\<lambda>(tz, first, dateTo). nat (dateTo * DAY - first + 1)))"
    by simp
next
  fix tz first dateTo :: int and first1 last w first2
  assume f1: "first1 = startOf_week tz first"
    and f2: "first2 = add_days 7 first1"
    and le: "first2 \<le> new_Date (DateStr dateTo)"
  define n where "n = (first + tz) div 86400000"
  have "(first + tz) mod 86400000 < 86400000" by simp
  then have a: "first + tz < n * 86400000 + 86400000"
    unfolding n_def by (simp add: minus_mod_eq_div_mult [symmetric] algebra_simps)
  have b: "(n + 4) mod 7 \<le> 6" by simp
  have "first2 = (n - (n + 4) mod 7) * 86400000 - tz + 7 * 86400000"
    unfolding f2 f1 add_days_def startOf_week_def format_ymd_def weekday_def DAY_def n_def
    by (simp add: Let_def)
  with a b have "first < first2" by (simp add: algebra_simps)
  with le show "((tz, first2, dateTo), (tz, first, dateTo))
      \<in> measure (\<lambda>(tz, first, dateTo). nat (dateTo * DAY - first + 1))"
    by simp
qed

declare weeks_loop.simps [simp del]

definition getWeeks :: "int \<Rightarrow> isodate \<Rightarrow> isodate \<Rightarrow> period list" where
  "getWeeks tz dateFrom dateTo = weeks_loop tz (Moment tz (DateStr dateFrom)) dateTo"

section \<open>Requests, the database and errors\<close>

text \<open>
  The query parameters are strings or absent; \<open>!x\<close> holds for an absent parameter and for
  the empty string. The dates of a request are taken to be well formed.
\<close>

record params =
  account_id :: "string option"
  dateFrom :: jsdate
  dateTo :: jsdate
  weekly :: "string option"

definition truthy :: "string option \<Rightarrow> bool" where
  "truthy x = (case x of None \<Rightarrow> False | Some s \<Rightarrow> s \<noteq> [])"

text \<open>
  Modelled from the spec: \<open>lib/errors/BadRequest\<close> is not among the sources. It carries a
  description and a translatable code, and is answered with HTTP status 400.
\<close>

datatype error = BadRequest string string

fun status :: "error \<Rightarrow> nat" where
  "status (BadRequest description code) = 400"

text \<open>
  A function that returns a promise either throws before returning (synchronously), or
  returns a promise that is later rejected or resolved.
\<close>

datatype 'a outcome = Throws error | Rejects error | Resolves 'a

text \<open>
  The database and \<open>AccountsExtra.getOpeningBalanceForDate\<close> are outside the controller
  and are parameters here: the rows of the \<open>period\<close> table, the opening balance of an account
  at a date (\<open>None\<close> for a falsy answer; the calendar report stores the answer as the balance,
  the weekly report reads the \<open>balance\<close> of the answer, and both are the number here), and
  the rows that the SQL of \<open>queryIncomeExpense\<close> selects for an account and two dates.
  Failing queries are not modelled. Every query that is sent is recorded, in order.
\<close>

record db =
  period_table :: "period list"
  getOpeningBalanceForDate :: "string \<Rightarrow> jsdate \<Rightarrow> int option"
  general_ledger :: "string \<Rightarrow> isodate \<Rightarrow> isodate \<Rightarrow> posting list"

datatype query =
  GetPeriods isodate isodate
| GetOpeningBalance string jsdate
| QueryIncomeExpense string isodate isodate

text \<open>SQL's \<open>DATE(x)\<close> of a stored date, in the time zone of the server.\<close>

definition sql_DATE :: "int \<Rightarrow> jsdate \<Rightarrow> isodate" where
  "sql_DATE tz x = format_ymd tz (Moment tz x)"

text \<open>The \<open>WHERE\<close> clause of \<open>getPeriods(dateFrom, dateTo)\<close> over the period table.\<close>

definition getPeriods :: "int \<Rightarrow> db \<Rightarrow> isodate \<Rightarrow> isodate \<Rightarrow> period list" where
  "getPeriods tz d dFrom dTo =
     filter (\<lambda>p. (sql_DATE tz (start_date p) \<ge> dFrom \<and> sql_DATE tz (end_date p) \<le> dTo)
               \<or> (sql_DATE tz (start_date p) \<le> dFrom \<and> dFrom \<le> sql_DATE tz (end_date p))
               \<or> (sql_DATE tz (start_date p) \<le> dTo \<and> dTo \<le> sql_DATE tz (end_date p)))
       (period_table d)"

definition queryIncomeExpense :: "db \<Rightarrow> string \<Rightarrow> isodate \<Rightarrow> isodate \<Rightarrow> posting list" where
  "queryIncomeExpense d acc dFrom dTo = general_ledger d acc dFrom dTo"

record report_rows =
  rows_openningBalance :: int
  rows_flows :: "grouped list"

text \<open>\<open>processingCashflowReport(params)\<close>: the result and the queries sent.\<close>

definition processingCashflowReport ::
  "int \<Rightarrow> db \<Rightarrow> params \<Rightarrow> report_rows outcome \<times> query list" where
  "processingCashflowReport tz d ps =
     (if \<not> truthy (account_id ps) then
        (Throws (BadRequest ''Cashbox is missing'' ''ERRORS.BAD_REQUEST''), [])
      else
        (let acc = (case account_id ps of Some s \<Rightarrow> s | None \<Rightarrow> []);
             dFrom = format_ymd tz (Moment tz (dateFrom ps));
             dTo = format_ymd tz (Moment tz (dateTo ps));
             periods = getPeriods tz d dFrom dTo
         in case periods of
              [] \<Rightarrow>
                (Rejects (BadRequest ''Periods not found due to a bad date interval''
                            ''ERRORS.BAD_DATE_INTERVAL''),
                 [GetPeriods dFrom dTo])
            | p0 # _ \<Rightarrow>
                (let balance = getOpeningBalanceForDate d acc (start_date p0);
                     openningBalance = (case balance of None \<Rightarrow> 0 | Some b \<Rightarrow> b);
                     result = queryIncomeExpense d acc dFrom dTo;
                     flw = groupingIncomeExpenseByPeriod (groupByPeriod periods result False)
                 in (Resolves \<lparr>rows_openningBalance = openningBalance, rows_flows = flw\<rparr>,
                     [GetPeriods dFrom dTo, GetOpeningBalance acc (start_date p0),
                      QueryIncomeExpense acc dFrom dTo]))))"

text \<open>
  \<open>processingWeekCashflow(params)\<close>. The weeks are computed without a query; the start of
  the first week is then overwritten with the \<open>dateFrom\<close> string.
\<close>

definition processingWeekCashflow ::
  "int \<Rightarrow> db \<Rightarrow> params \<Rightarrow> report_rows outcome \<times> query list" where
  "processingWeekCashflow tz d ps =
     (if \<not> truthy (account_id ps) then
        (Throws (BadRequest ''Cashbox is missing'' ''ERRORS.BAD_REQUEST''), [])
      else
        (let acc = (case account_id ps of Some s \<Rightarrow> s | None \<Rightarrow> []);
             dFrom = format_ymd tz (Moment tz (dateFrom ps));
             dTo = format_ymd tz (Moment tz (dateTo ps))
         in case getWeeks tz dFrom dTo of
              [] \<Rightarrow>
                (Throws (BadRequest ''Periods not found due to a bad date interval''
                           ''ERRORS.BAD_DATE_INTERVAL''),
                 [])
            | p0 # rest \<Rightarrow>
                (let periods = p0\<lparr>start_date := DateStr dFrom\<rparr> # rest;
                     balance = getOpeningBalanceForDate d acc (start_date (hd periods));
                     openningBalance = (case balance of None \<Rightarrow> 0 | Some b \<Rightarrow> b);
                     result = queryIncomeExpense d acc dFrom dTo;
                     flows = groupingIncomeExpenseByPeriod
                               (groupByPeriod periods result (truthy (weekly ps)))
                 in (Resolves \<lparr>rows_openningBalance = openningBalance, rows_flows = flows\<rparr>,
                     [GetOpeningBalance acc (start_date (hd periods)),
                      QueryIncomeExpense acc dFrom dTo]))))"

section \<open>The report document: session state\<close>

text \<open>
  \<open>document\<close> keeps its working data in the object \<open>session\<close>, which the nested functions
  update in place; here each of them takes the session and returns the new one. The objects
  keyed by a period (a \<open>'YYYY-MM-DD'\<close> string) are maps; \<open>None\<close> is an absent key, and for
  the two balances also the value \<open>NaN\<close>, which is what \<open>Number(undefined)\<close> gives. The
  fields that only \<open>labelization\<close> fills are left out.
\<close>

record entry =
  transfer_type :: string
  entry_currency_id :: int
  val :: int

record session =
  accountName :: "string option"
  periodicData :: "grouped list"
  openningBalance :: int
  periodStartArray :: "isodate list"
  periodRange :: "(isodate \<times> isodate) list"
  summationIncome :: "isodate \<Rightarrow> entry list option"
  summationExpense :: "isodate \<Rightarrow> entry list option"
  sum_incomes :: "isodate \<Rightarrow> int option"
  sum_expense :: "isodate \<Rightarrow> int option"
  periodicBalance :: "isodate \<Rightarrow> int option"
  periodicOpenningBalance :: "isodate \<Rightarrow> int option"
  incomesLabels :: "string list"
  expensesLabels :: "string list"

definition initialization :: "session \<Rightarrow> session" where
  "initialization S =
     S\<lparr>summationIncome := (\<lambda>_. None), summationExpense := (\<lambda>_. None),
       sum_incomes := (\<lambda>_. None), sum_expense := (\<lambda>_. None),
       periodicBalance := (\<lambda>_. None), periodicOpenningBalance := (\<lambda>_. None),
       incomesLabels := [], expensesLabels := []\<rparr>"

text \<open>The session as \<open>document\<close> creates it, before \<open>reporting\<close> runs.\<close>

definition empty_session :: session where
  "empty_session =
     \<lparr>accountName = None, periodicData = [], openningBalance = 0, periodStartArray = [],
      periodRange = [], summationIncome = (\<lambda>_. None), summationExpense = (\<lambda>_. None),
      sum_incomes = (\<lambda>_. None), sum_expense = (\<lambda>_. None),
      periodicBalance = (\<lambda>_. None), periodicOpenningBalance = (\<lambda>_. None),
      incomesLabels = [], expensesLabels = []\<rparr>"

subsection \<open>groupingResult\<close>

text \<open>
  The cache of the duplicate filter is a plain object, so reading a key that names a
  property of \<open>Object.prototype\<close> gives a truthy value although nothing was stored.
\<close>

definition object_prototype_keys :: "string list" where
  "object_prototype_keys =
     [''constructor'', ''toString'', ''toLocaleString'', ''valueOf'', ''hasOwnProperty'',
      ''isPrototypeOf'', ''propertyIsEnumerable'', ''__proto__'', ''__defineGetter__'',
      ''__defineSetter__'', ''__lookupGetter__'', ''__lookupSetter__'']"

fun removeDuplicates :: "string list \<Rightarrow> entry list \<Rightarrow> entry list" where
  "removeDuplicates cache [] = []"
| "removeDuplicates cache (elem # rest) =
     (if transfer_type elem \<in> set cache \<or> transfer_type elem \<in> set object_prototype_keys
      then removeDuplicates cache rest
      else elem # removeDuplicates (transfer_type elem # cache) rest)"

text \<open>The two \<open>reduce\<close> calls: the total of one origin over the whole array.\<close>

definition income_value :: "posting list \<Rightarrow> posting \<Rightarrow> int" where
  "income_value incs item =
     foldl (\<lambda>a b. if origin_id b = origin_id item then debit_equiv b + a else a) 0 incs"

definition expense_value :: "posting list \<Rightarrow> posting \<Rightarrow> int" where
  "expense_value exps item =
     foldl (\<lambda>a b. if origin_id b = origin_id item then credit_equiv b + a else a) 0 exps"

definition income_entries :: "posting list \<Rightarrow> entry list" where
  "income_entries incs =
     map (\<lambda>item. \<lparr>transfer_type = transactionType item, entry_currency_id = currency_id item,
                  val = income_value incs item\<rparr>)
       (filter (\<lambda>item. origin_id item \<noteq> 0) incs)"

definition expense_entries :: "posting list \<Rightarrow> entry list" where
  "expense_entries exps =
     map (\<lambda>item. \<lparr>transfer_type = transactionType item, entry_currency_id = currency_id item,
                  val = expense_value exps item\<rparr>)
       (filter (\<lambda>item. origin_id item \<noteq> 0) exps)"

text \<open>
  \<open>groupingResult(incomes, expenses, period)\<close>. The second branch of the account name
  reads \<open>expenses.lenght\<close>, which is \<open>undefined\<close>, so it is never taken.
\<close>

definition groupingResult :: "session \<Rightarrow> posting list \<Rightarrow> posting list \<Rightarrow> isodate \<Rightarrow> session" where
  "groupingResult S incs exps period =
     S\<lparr>accountName :=
         (if (accountName S = None \<or> accountName S = Some []) \<and> incs \<noteq> []
          then Some (label (hd incs)) else accountName S),
       summationIncome := (summationIncome S)
         (period := Some (removeDuplicates [] (income_entries incs))),
       summationExpense := (summationExpense S)
         (period := Some (removeDuplicates [] (expense_entries exps)))\<rparr>"

subsection \<open>summarization\<close>

text \<open>\<open>xs.indexOf(x)\<close> and \<open>xs[i]\<close> as JavaScript has them.\<close>

fun indexOf :: "'a list \<Rightarrow> 'a \<Rightarrow> int" where
  "indexOf [] x = -1"
| "indexOf (y # ys) x = (if y = x then 0 else (let i = indexOf ys x in if i < 0 then -1 else i + 1))"

definition js_nth :: "'a list \<Rightarrow> int \<Rightarrow> 'a option" where
  "js_nth xs i = (if 0 \<le> i \<and> i < int (length xs) then Some (xs ! nat i) else None)"

text \<open>\<open>isFirstPeriod(period)\<close>; with an empty list the reference is an invalid date.\<close>

definition isFirstPeriod :: "int \<Rightarrow> session \<Rightarrow> isodate \<Rightarrow> bool" where
  "isFirstPeriod tz S period =
     (case periodStartArray S of
        [] \<Rightarrow> False
      | reference # _ \<Rightarrow>
          (if getDate tz (new_Date (DateStr reference)) = 1
              \<and> getMonth tz (new_Date (DateStr reference)) = 0
           then getDate tz (new_Date (DateStr period)) = 1
              \<and> getMonth tz (new_Date (DateStr period)) = 0
           else getDate tz (new_Date (DateStr period)) = getDate tz (new_Date (DateStr reference))
              \<and> getMonth tz (new_Date (DateStr period)) = getMonth tz (new_Date (DateStr reference))
              \<and> getYear tz (new_Date (DateStr period)) = getYear tz (new_Date (DateStr reference))))"

definition previousPeriod :: "int \<Rightarrow> session \<Rightarrow> isodate \<Rightarrow> isodate option" where
  "previousPeriod tz S period =
     (let currentIndex = indexOf (periodStartArray S) (format_ymd tz (Moment tz (DateStr period)))
      in if currentIndex \<noteq> 0 then js_nth (periodStartArray S) (currentIndex - 1)
         else js_nth (periodStartArray S) currentIndex)"

text \<open>Reading \<open>session.periodicBalance[k]\<close> where \<open>k\<close> may be \<open>undefined\<close>.\<close>

definition balance_at :: "session \<Rightarrow> isodate option \<Rightarrow> int option" where
  "balance_at S k = (case k of None \<Rightarrow> None | Some p \<Rightarrow> periodicBalance S p)"

definition entries_at :: "(isodate \<Rightarrow> entry list option) \<Rightarrow> isodate \<Rightarrow> entry list" where
  "entries_at m period = (case m period of None \<Rightarrow> [] | Some ts \<Rightarrow> ts)"

definition summarization :: "int \<Rightarrow> session \<Rightarrow> isodate \<Rightarrow> session" where
  "summarization tz S period =
     (let inc_sum = foldl (\<lambda>a transaction. a + val transaction) 0
                  (entries_at (summationIncome S) period);
          exp_sum = foldl (\<lambda>a transaction. a + val transaction) 0
                  (entries_at (summationExpense S) period);
          S1 = S\<lparr>sum_incomes := (sum_incomes S)(period := Some inc_sum),
                 sum_expense := (sum_expense S)(period := Some exp_sum),
                 incomesLabels := incomesLabels S
                   @ map transfer_type (entries_at (summationIncome S) period),
                 expensesLabels := expensesLabels S
                   @ map transfer_type (entries_at (summationExpense S) period)\<rparr>;
          S2 = S1\<lparr>periodicBalance := (periodicBalance S1)(period :=
                 (if isFirstPeriod tz S1 period
                  then Some ((openningBalance S1 + inc_sum) - exp_sum)
                  else map_option (\<lambda>b. (b + inc_sum) - exp_sum)
                         (balance_at S1 (previousPeriod tz S1 period))))\<rparr>
      in S2\<lparr>periodicOpenningBalance := (periodicOpenningBalance S2)(period :=
               (if isFirstPeriod tz S2 period
                then Some (openningBalance S2)
                else balance_at S2 (previousPeriod tz S2 period)))\<rparr>)"

subsection \<open>reporting\<close>

definition period_key :: "int \<Rightarrow> grouped \<Rightarrow> isodate" where
  "period_key tz flow = format_ymd tz (Moment tz (start_date (g_period flow)))"

definition reporting :: "int \<Rightarrow> session \<Rightarrow> report_rows \<Rightarrow> session" where
  "reporting tz S rows =
     (let S1 = (initialization S)\<lparr>periodicData := rows_flows rows,
                                   openningBalance := rows_openningBalance rows\<rparr>;
          S2 = foldl (\<lambda>s flow. groupingResult s (incomes flow) (expenses flow)
                                  (period_key tz flow)) S1 (periodicData S1);
          S3 = S2\<lparr>periodStartArray := map (period_key tz) (periodicData S2)\<rparr>;
          S4 = foldl (\<lambda>s flow. summarization tz s (period_key tz flow)) S3 (periodicData S3)
      in S4\<lparr>periodRange :=
               map (\<lambda>flow. (format_ymd tz (Moment tz (start_date (g_period flow))),
                            format_ymd tz (Moment tz (end_date (g_period flow)))))
                 (periodicData S4)\<rparr>)"

section \<open>The report by service\<close>

text \<open>
  The rows of \<open>cashflowByServiceSql\<close> with the columns the matrix uses; the running total
  \<open>cumsum\<close> comes from the query. A cell of the matrix is \<open>null\<close>, a string or a number
  (or a hole, where an assignment beyond the end would extend the array).
\<close>

record cash_row =
  reference :: string
  display_name :: string
  name :: string
  cashAmount :: int
  cumsum :: int

datatype cell = Null | Hole | Str string | Num int

definition js_set :: "cell list \<Rightarrow> int \<Rightarrow> cell \<Rightarrow> cell list" where
  "js_set line i v =
     (if i < 0 then line
      else if nat i < length line then line[nat i := v]
      else line @ replicate (nat i - length line) Hole @ [v])"

definition matrix_line :: "string list \<Rightarrow> cash_row \<Rightarrow> cell list" where
  "matrix_line services row =
     (let xAxis = int (length services);
          line0 = replicate (nat (xAxis + 3)) Null;
          line1 = js_set line0 0 (Str (reference row));
          line2 = js_set line1 1 (Str (display_name row));
          idx = indexOf services (name row) + 2;
          line3 = js_set line2 idx (Num (cashAmount row))
      in js_set line3 (xAxis + 2) (Num (cumsum row)))"

definition service_matrix :: "string list \<Rightarrow> cash_row list \<Rightarrow> cell list list" where
  "service_matrix services rows = map (matrix_line services) rows"

section \<open>Example data\<close>

text \<open>
  March 2024 as a row of the period table (1709251200000 is 2024-03-01T00:00:00Z and
  1711843200000 is 2024-03-31T00:00:00Z), and a posting of 2024-03-05T10:00:00Z.
\<close>

definition ex_period :: period where
  "ex_period = \<lparr>id_field = Some 7, week = None,
      start_date = DateObj 1709251200000, end_date = DateObj 1711843200000\<rparr>"

definition ex_posting :: "int \<Rightarrow> int \<Rightarrow> int \<Rightarrow> int \<Rightarrow> posting" where
  "ex_posting pid org debit credit =
     \<lparr>trans_id = ''TRANS'', trans_date = DateObj 1709632800000, period_id = pid,
      label = ''Caisse'', debit_equiv = debit, credit_equiv = credit, currency_id = 1,
      origin_id = org, transactionType = ''CASH_PAYMENT''\<rparr>"

text \<open>A database with that period and two postings, and a request for a cashbox.\<close>

definition ex_db :: db where
  "ex_db = \<lparr>period_table = [ex_period],
            getOpeningBalanceForDate = (\<lambda>acc date. Some 100),
            general_ledger = (\<lambda>acc dFrom dTo. [ex_posting 7 1 50 0, ex_posting 7 2 0 20])\<rparr>"

definition ex_params :: "int \<Rightarrow> int \<Rightarrow> params" where
  "ex_params dFrom dTo =
     \<lparr>account_id = Some ''3627'', dateFrom = DateStr dFrom, dateTo = DateStr dTo,
      weekly = Some ''1''\<rparr>"

text \<open>
  Report rows of two periods with an opening balance of 100: the first with incomes of 500
  and expenses of 200, the second with incomes of 300 and expenses of 400. The periods start
  at the given instants.
\<close>

definition ex_rows :: "instant \<Rightarrow> instant \<Rightarrow> report_rows" where
  "ex_rows start1 start2 =
     \<lparr>rows_openningBalance = 100,
      rows_flows =
        [\<lparr>g_period = \<lparr>id_field = Some 1, week = None, start_date = DateObj start1,
                      end_date = DateObj (start1 + 27 * DAY)\<rparr>,
          incomes = [ex_posting 1 1 500 0], expenses = [ex_posting 1 2 0 200]\<rparr>,
         \<lparr>g_period = \<lparr>id_field = Some 2, week = None, start_date = DateObj start2,
                      end_date = DateObj (start2 + 27 * DAY)\<rparr>,
          incomes = [ex_posting 2 1 300 0], expenses = [ex_posting 2 2 0 400]\<rparr>]\<rparr>"

section \<open>The first period, in the words of the specification\<close>


section \<open>Income and expense sets of a period\<close>

text \<open>
  Claim C7. For every period bucket, \<open>groupingIncomeExpenseByPeriod\<close> keeps the period,
  puts into \<open>incomes\<close> exactly the postings of the bucket with \<open>debit_equiv > 0\<close> and into
  \<open>expenses\<close> exactly those with \<open>credit_equiv > 0\<close>, in the order of the bucket. The two
  filters are independent: a posting with both amounts positive is in both lists.
\<close>

theorem groupingIncomeExpenseByPeriod_filters:
  assumes "i < length periodicFlows"
  shows "length (groupingIncomeExpenseByPeriod periodicFlows) = length periodicFlows
    \<and> g_period (groupingIncomeExpenseByPeriod periodicFlows ! i) = pf_period (periodicFlows ! i)
    \<and> incomes (groupingIncomeExpenseByPeriod periodicFlows ! i)
        = filter (\<lambda>posting. debit_equiv posting > 0) (pf_flows (periodicFlows ! i))
    \<and> expenses (groupingIncomeExpenseByPeriod periodicFlows ! i)
        = filter (\<lambda>posting. credit_equiv posting > 0) (pf_flows (periodicFlows ! i))
    \<and> (\<forall>posting \<in> set (pf_flows (periodicFlows ! i)).
          (debit_equiv posting > 0
             \<longrightarrow> posting \<in> set (incomes (groupingIncomeExpenseByPeriod periodicFlows ! i)))
        \<and> (credit_equiv posting > 0
             \<longrightarrow> posting \<in> set (expenses (groupingIncomeExpenseByPeriod periodicFlows ! i))))"
  using assms by (simp add: groupingIncomeExpenseByPeriod_def)

theorem groupingIncomeExpenseByPeriod_filters_witness:
  "ex_posting 7 2 30 40 \<in> set (incomes (groupingIncomeExpenseByPeriod
       [\<lparr>pf_period = ex_period,
         pf_flows = [ex_posting 7 1 50 0, ex_posting 7 2 30 40, ex_posting 7 3 0 20]\<rparr>] ! 0))
   \<and> ex_posting 7 2 30 40 \<in> set (expenses (groupingIncomeExpenseByPeriod
       [\<lparr>pf_period = ex_period,
         pf_flows = [ex_posting 7 1 50 0, ex_posting 7 2 30 40, ex_posting 7 3 0 20]\<rparr>] ! 0))
   \<and> incomes (groupingIncomeExpenseByPeriod
       [\<lparr>pf_period = ex_period,
         pf_flows = [ex_posting 7 1 50 0, ex_posting 7 2 30 40, ex_posting 7 3 0 20]\<rparr>] ! 0)
       = [ex_posting 7 1 50 0, ex_posting 7 2 30 40]
   \<and> expenses (groupingIncomeExpenseByPeriod
       [\<lparr>pf_period = ex_period,
         pf_flows = [ex_posting 7 1 50 0, ex_posting 7 2 30 40, ex_posting 7 3 0 20]\<rparr>] ! 0)
       = [ex_posting 7 2 30 40, ex_posting 7 3 0 20]"
  using groupingIncomeExpenseByPeriod_filters [of 0
       "[\<lparr>pf_period = ex_period,
         pf_flows = [ex_posting 7 1 50 0, ex_posting 7 2 30 40, ex_posting 7 3 0 20]\<rparr>]"]
  by (simp add: ex_posting_def)

section \<open>Buckets of postings\<close>




section \<open>Requests without a cashbox\<close>

text \<open>
  Claim C5. When \<open>account_id\<close> is absent (or empty), both \<open>processingCashflowReport\<close> and
  \<open>processingWeekCashflow\<close> throw the BadRequest \<open>Cashbox is missing\<close>, whose status is 400,
  before they return a promise, and no query has been sent: neither the period lookup nor
  the opening balance nor the ledger query. The dates and the other parameters play no role.
\<close>

theorem missing_account_id_throws:
  assumes "\<not> truthy (account_id ps)"
  shows "processingCashflowReport tz d ps
           = (Throws (BadRequest ''Cashbox is missing'' ''ERRORS.BAD_REQUEST''), [])
    \<and> processingWeekCashflow tz d ps
           = (Throws (BadRequest ''Cashbox is missing'' ''ERRORS.BAD_REQUEST''), [])
    \<and> status (BadRequest ''Cashbox is missing'' ''ERRORS.BAD_REQUEST'') = 400"
  using assms by (simp add: processingCashflowReport_def processingWeekCashflow_def)

theorem missing_account_id_throws_witness:
  "processingCashflowReport 0 ex_db ((ex_params 19787 19802)\<lparr>account_id := None\<rparr>)
     = (Throws (BadRequest ''Cashbox is missing'' ''ERRORS.BAD_REQUEST''), [])
   \<and> processingWeekCashflow 0 ex_db ((ex_params 19802 19787)\<lparr>account_id := Some ''''\<rparr>)
     = (Throws (BadRequest ''Cashbox is missing'' ''ERRORS.BAD_REQUEST''), [])"
proof -
  have a: "\<not> truthy (account_id ((ex_params 19787 19802)\<lparr>account_id := None\<rparr>))"
    and b: "\<not> truthy (account_id ((ex_params 19802 19787)\<lparr>account_id := Some ''''\<rparr>))"
    by (simp_all add: truthy_def)
  show ?thesis
    using missing_account_id_throws [OF a, of 0 ex_db] missing_account_id_throws [OF b, of 0 ex_db]
    by simp
qed

section \<open>The weeks of a range\<close>

lemma format_ymd_local_midnight: "format_ymd tz (n * DAY - tz) = n"
  by (simp add: format_ymd_def DAY_def)

lemma weeks_loop_not_Nil: "weeks_loop tz t dTo \<noteq> []"
  by (subst weeks_loop.simps) (simp add: Let_def)

lemma getWeeks_Cons:
  "\<exists>rest. getWeeks tz dFrom dTo =
      \<lparr>id_field = None, week = Some 1,
       start_date = DateObj (startOf_week tz (Moment tz (DateStr dFrom))),
       end_date = DateObj (endOf_week tz (startOf_week tz (Moment tz (DateStr dFrom))))\<rparr> # rest"
  unfolding getWeeks_def by (subst weeks_loop.simps) (simp add: Let_def)

lemma calendar_examples:
  "civil_from_days 19785 = (2024, 3, 3)" "civil_from_days 19787 = (2024, 3, 5)"
  "civil_from_days 19802 = (2024, 3, 20)"
  by code_simp+

lemma day_count_examples:
  "days_from_civil 1970 1 1 = 0" "days_from_civil 2023 1 1 = 19358"
  "days_from_civil 2024 1 1 = 19723" "days_from_civil 2024 3 5 = 19787"
  "days_from_civil 2024 3 20 = 19802"
  by code_simp+

text \<open>
  Claim C4. In weekly mode, for a request with a cashbox whose \<open>dateFrom\<close> is the date string
  \<open>n\<close>, the report is produced, it has a first period, and the \<open>start_date\<close> of that period is
  the string \<open>n\<close> itself, whereas \<open>getWeeks\<close> had put there the start of the week containing
  \<open>n\<close>; the later periods are the weeks of \<open>getWeeks\<close> unchanged. This holds for every
  \<open>dateTo\<close>, in particular for \<open>dateFrom \<le> dateTo\<close>.
\<close>

theorem weekly_first_start_is_dateFrom:
  assumes "truthy (account_id ps)" and "dateFrom ps = DateStr n"
  shows "\<exists>r q. processingWeekCashflow tz d ps = (Resolves r, q)
           \<and> rows_flows r \<noteq> []
           \<and> start_date (g_period (hd (rows_flows r))) = DateStr n
           \<and> map g_period (tl (rows_flows r))
               = tl (getWeeks tz n (format_ymd tz (Moment tz (dateTo ps))))
           \<and> start_date (hd (getWeeks tz n (format_ymd tz (Moment tz (dateTo ps)))))
               = DateObj (startOf_week tz (Moment tz (DateStr n)))"
proof -
  obtain rest where w: "getWeeks tz n (format_ymd tz (Moment tz (dateTo ps))) =
      \<lparr>id_field = None, week = Some 1,
       start_date = DateObj (startOf_week tz (Moment tz (DateStr n))),
       end_date = DateObj (endOf_week tz (startOf_week tz (Moment tz (DateStr n))))\<rparr> # rest"
    using getWeeks_Cons by blast
  show ?thesis
    using assms w
    by (simp add: processingWeekCashflow_def Let_def format_ymd_local_midnight
        groupingIncomeExpenseByPeriod_def groupByPeriod_def comp_def)
qed

text \<open>
  The scenario of the specification, on a server one hour east of UTC: 2024-03-05 is day
  19787, a Tuesday; the week containing it starts on Sunday 2024-03-03 (day 19785).
\<close>

theorem weekly_first_start_is_dateFrom_witness:
  "civil_from_days 19787 = (2024, 3, 5) \<and> civil_from_days 19802 = (2024, 3, 20)
   \<and> weekday 19787 = 2
   \<and> (\<exists>r q. processingWeekCashflow 3600000 ex_db (ex_params 19787 19802) = (Resolves r, q)
         \<and> start_date (g_period (hd (rows_flows r))) = DateStr 19787)
   \<and> startOf_week 3600000 (Moment 3600000 (DateStr 19787)) = Moment 3600000 (DateStr 19785)
   \<and> civil_from_days 19785 = (2024, 3, 3) \<and> weekday 19785 = 0"
proof -
  have a: "truthy (account_id (ex_params 19787 19802))"
    by (simp add: ex_params_def truthy_def)
  have b: "dateFrom (ex_params 19787 19802) = DateStr 19787"
    by (simp add: ex_params_def)
  have e: "startOf_week 3600000 (Moment 3600000 (DateStr 19787)) = Moment 3600000 (DateStr 19785)"
    by (simp add: startOf_week_def format_ymd_def weekday_def DAY_def Let_def)
  have f: "weekday 19787 = 2" "weekday 19785 = 0"
    by (simp_all add: weekday_def)
  from weekly_first_start_is_dateFrom [OF a b, of 3600000 ex_db]
  have "\<exists>r q. processingWeekCashflow 3600000 ex_db (ex_params 19787 19802) = (Resolves r, q)
         \<and> start_date (g_period (hd (rows_flows r))) = DateStr 19787"
    by blast
  with calendar_examples e f show ?thesis
    by (intro conjI) assumption+
qed

text \<open>
  Claim C10. \<open>getWeeks\<close> never returns an empty list: whatever the two dates are, also with
  \<open>dateFrom\<close> after \<open>dateTo\<close>, its first element is the week containing \<open>dateFrom\<close>, pushed
  before the loop condition is tested. So \<open>processingWeekCashflow\<close> never raises the
  BadRequest with code \<open>ERRORS.BAD_DATE_INTERVAL\<close>, neither by throwing nor by rejecting.
\<close>

theorem getWeeks_never_empty:
  "getWeeks tz dFrom dTo \<noteq> []
   \<and> start_date (hd (getWeeks tz dFrom dTo))
       = DateObj (startOf_week tz (Moment tz (DateStr dFrom)))
   \<and> fst (processingWeekCashflow tz d ps) \<noteq> Throws (BadRequest msg ''ERRORS.BAD_DATE_INTERVAL'')
   \<and> fst (processingWeekCashflow tz d ps) \<noteq> Rejects e"
proof -
  obtain rest where w: "getWeeks tz dFrom dTo =
      \<lparr>id_field = None, week = Some 1,
       start_date = DateObj (startOf_week tz (Moment tz (DateStr dFrom))),
       end_date = DateObj (endOf_week tz (startOf_week tz (Moment tz (DateStr dFrom))))\<rparr> # rest"
    using getWeeks_Cons by blast
  have n: "getWeeks tz a b \<noteq> []" for a b
    unfolding getWeeks_def by (rule weeks_loop_not_Nil)
  show ?thesis
    using w n by (auto simp: processingWeekCashflow_def Let_def split: list.splits)
qed

text \<open>
  With \<open>dateFrom\<close> = 2024-03-20 (day 19802) after \<open>dateTo\<close> = 2024-03-05 (day 19787)
  there is one week, from Sunday 2024-03-17 to Saturday 2024-03-23.
\<close>

lemma weeks_of_reversed_range:
  "getWeeks 0 19802 19787 =
     [\<lparr>id_field = None, week = Some 1, start_date = DateObj 1710633600000,
       end_date = DateObj 1711238399999\<rparr>]"
  unfolding getWeeks_def
  by (subst weeks_loop.simps)
    (simp add: Let_def startOf_week_def endOf_week_def add_days_def format_ymd_def
      weekday_def DAY_def)


theorem getWeeks_never_empty_witness:
  "getWeeks 0 19802 19787 =
     [\<lparr>id_field = None, week = Some 1, start_date = DateObj 1710633600000,
       end_date = DateObj 1711238399999\<rparr>]
   \<and> fst (processingWeekCashflow 0 ex_db (ex_params 19802 19787))
       \<noteq> Throws (BadRequest ''Periods not found due to a bad date interval''
                    ''ERRORS.BAD_DATE_INTERVAL'')"
  using getWeeks_never_empty [of 0 19802 19787 ex_db "ex_params 19802 19787"]
  by (simp add: weeks_of_reversed_range)

section \<open>The first period\<close>






section \<open>The matrix of the report by service\<close>

lemma indexOf_found:
  "x \<in> set xs \<Longrightarrow>
     0 \<le> indexOf xs x \<and> indexOf xs x < int (length xs) \<and> xs ! nat (indexOf xs x) = x"
proof (induction xs)
  case Nil
  then show ?case by simp
next
  case (Cons y ys)
  show ?case
  proof (cases "y = x")
    case True
    then show ?thesis by simp
  next
    case False
    with Cons.prems have "x \<in> set ys" by simp
    with Cons.IH have ih: "0 \<le> indexOf ys x" "indexOf ys x < int (length ys)"
      "ys ! nat (indexOf ys x) = x"
      by simp_all
    from ih(1) have "nat (indexOf ys x + 1) = Suc (nat (indexOf ys x))"
      by simp
    with False ih show ?thesis
      by (simp add: Let_def)
  qed
qed

lemma indexOf_missing: "x \<notin> set xs \<Longrightarrow> indexOf xs x = -1"
  by (induction xs) (auto simp: Let_def)

text \<open>
  Claim C9. For every row of the query whose service name is in the list of service names
  (\<open>n\<close> names, the row's name at index \<open>k\<close>), the line of the matrix has \<open>n + 3\<close> cells: the
  cash payment reference in column 0, the patient's name in column 1, the row's
  \<open>cashAmount\<close> in the service column \<open>k + 2\<close> of its own service, the running total \<open>cumsum\<close>
  in the last column \<open>n + 2\<close>, and \<open>null\<close> in every other cell.
\<close>

theorem service_matrix_line:
  assumes "i < length rows" and "name (rows ! i) \<in> set services"
  shows "length (service_matrix services rows ! i) = length services + 3
    \<and> nat (indexOf services (name (rows ! i))) < length services
    \<and> services ! nat (indexOf services (name (rows ! i))) = name (rows ! i)
    \<and> service_matrix services rows ! i ! 0 = Str (reference (rows ! i))
    \<and> service_matrix services rows ! i ! 1 = Str (display_name (rows ! i))
    \<and> service_matrix services rows ! i ! (nat (indexOf services (name (rows ! i))) + 2)
        = Num (cashAmount (rows ! i))
    \<and> service_matrix services rows ! i ! (length services + 2) = Num (cumsum (rows ! i))
    \<and> (\<forall>j < length services + 3.
          j \<notin> {0, 1, nat (indexOf services (name (rows ! i))) + 2, length services + 2}
          \<longrightarrow> service_matrix services rows ! i ! j = Null)"
proof -
  define k where "k = nat (indexOf services (name (rows ! i)))"
  from indexOf_found [OF assms(2)]
  have k: "indexOf services (name (rows ! i)) = int k" "k < length services"
    "services ! k = name (rows ! i)"
    by (simp_all add: k_def nat_less_iff)
  have n: "nat (int (length services) + 3) = length services + 3"
    "nat (int (length services) + 2) = length services + 2" "nat (int k + 2) = k + 2"
    by simp_all
  have line: "matrix_line services (rows ! i) =
      (replicate (length services + 3) Null)
        [0 := Str (reference (rows ! i)), 1 := Str (display_name (rows ! i)),
         k + 2 := Num (cashAmount (rows ! i)), length services + 2 := Num (cumsum (rows ! i))]"
    using k(2) by (simp add: matrix_line_def js_set_def Let_def k(1) n)
  have m: "service_matrix services rows ! i = matrix_line services (rows ! i)"
    using assms(1) by (simp add: service_matrix_def)
  show ?thesis
    unfolding m line k_def [symmetric]
    using k(2,3) by (auto simp: nth_list_update)
qed

theorem service_matrix_line_witness:
  "service_matrix [''Dentisterie'', ''Medecine Interne'', ''Pediatrie'']
     [\<lparr>reference = ''CP.TPA.1'', display_name = ''Patient A'', name = ''Medecine Interne'',
       cashAmount = 25, cumsum = 25\<rparr>,
      \<lparr>reference = ''CP.TPA.2'', display_name = ''Patient B'', name = ''Dentisterie'',
       cashAmount = 10, cumsum = 35\<rparr>] ! 1
   = [Str ''CP.TPA.2'', Str ''Patient B'', Num 10, Null, Null, Num 35]"
proof -
  let ?services = "[''Dentisterie'', ''Medecine Interne'', ''Pediatrie'']"
  let ?rows = "[\<lparr>reference = ''CP.TPA.1'', display_name = ''Patient A'',
       name = ''Medecine Interne'', cashAmount = 25, cumsum = 25\<rparr>,
      \<lparr>reference = ''CP.TPA.2'', display_name = ''Patient B'', name = ''Dentisterie'',
       cashAmount = 10, cumsum = 35\<rparr>]"
  have a: "1 < length ?rows" by simp
  have b: "name (?rows ! 1) \<in> set ?services" by simp
  from service_matrix_line [OF a b] show ?thesis
    by (simp add: service_matrix_def matrix_line_def js_set_def Let_def eval_nat_numeral)
qed

section \<open>Entries of a period, one per label\<close>

lemma foldl_origin_total:
  "foldl (\<lambda>a b. if P b then f b + a else a) z xs = z + sum_list (map f (filter P xs))"
  for z :: int
  by (induction xs arbitrary: z) simp_all

lemma income_value_total:
  "income_value incs item
     = sum_list (map debit_equiv (filter (\<lambda>b. origin_id b = origin_id item) incs))"
  by (simp add: income_value_def foldl_origin_total)

lemma expense_value_total:
  "expense_value exps item
     = sum_list (map credit_equiv (filter (\<lambda>b. origin_id b = origin_id item) exps))"
  by (simp add: expense_value_def foldl_origin_total)

text \<open>
  For a bucket without negative amounts, the total of an origin over the incomes of the
  bucket is its total over the whole bucket.
\<close>

lemma income_total_over_bucket:
  assumes "\<forall>b \<in> set flows. 0 \<le> debit_equiv b"
  shows "sum_list (map debit_equiv (filter (\<lambda>b. origin_id b = origin)
             (filter (\<lambda>posting. debit_equiv posting > 0) flows)))
       = sum_list (map debit_equiv (filter (\<lambda>b. origin_id b = origin) flows))"
  using assms by (induction flows) (auto simp: order.order_iff_strict)

lemma removeDuplicates_subset: "set (removeDuplicates cache es) \<subseteq> set es"
  by (induction es arbitrary: cache) auto

lemma removeDuplicates_fresh:
  "e \<in> set (removeDuplicates cache es) \<Longrightarrow> transfer_type e \<notin> set cache"
proof (induction es arbitrary: cache)
  case Nil
  then show ?case by simp
next
  case (Cons elem rest)
  show ?case
  proof (cases "transfer_type elem \<in> set cache
      \<or> transfer_type elem \<in> set object_prototype_keys")
    case True
    with Cons.prems have "e \<in> set (removeDuplicates cache rest)" by simp
    then show ?thesis by (rule Cons.IH)
  next
    case False
    with Cons.prems
    consider "e = elem" | "e \<in> set (removeDuplicates (transfer_type elem # cache) rest)"
      by auto
    then show ?thesis
    proof cases
      case 1
      with False show ?thesis by simp
    next
      case 2
      then have "transfer_type e \<notin> set (transfer_type elem # cache)" by (rule Cons.IH)
      then show ?thesis by simp
    qed
  qed
qed

lemma removeDuplicates_distinct: "distinct (map transfer_type (removeDuplicates cache es))"
proof (induction es arbitrary: cache)
  case Nil
  then show ?case by simp
next
  case (Cons elem rest)
  have "transfer_type elem \<notin> transfer_type ` set (removeDuplicates (transfer_type elem # cache) rest)"
  proof
    assume "transfer_type elem
        \<in> transfer_type ` set (removeDuplicates (transfer_type elem # cache) rest)"
    then obtain e where e: "e \<in> set (removeDuplicates (transfer_type elem # cache) rest)"
      and t: "transfer_type elem = transfer_type e"
      by blast
    from e have "transfer_type e \<notin> set (transfer_type elem # cache)"
      by (rule removeDuplicates_fresh)
    with t show False by simp
  qed
  with Cons.IH show ?case by simp
qed

text \<open>
  Claim C2. After \<open>groupingResult\<close> has processed a period, \<open>summationIncome[period]\<close> and
  \<open>summationExpense[period]\<close> hold lists in which no \<open>transfer_type\<close> label occurs twice, and
  every entry that is kept comes from a posting of the list given for that period, with an
  origin, whose transaction type is the entry's label and whose currency is the entry's:
  the entry's value is the sum of \<open>debit_equiv\<close> (for incomes; \<open>credit_equiv\<close> for expenses)
  over all the postings of that list that have the origin of that posting.
\<close>

theorem groupingResult_one_entry_per_label:
  "\<exists>ins outs.
      summationIncome (groupingResult S incs exps period) period = Some ins
    \<and> summationExpense (groupingResult S incs exps period) period = Some outs
    \<and> distinct (map transfer_type ins) \<and> distinct (map transfer_type outs)
    \<and> (\<forall>e \<in> set ins. \<exists>item \<in> set incs.
          origin_id item \<noteq> 0 \<and> transfer_type e = transactionType item
        \<and> entry_currency_id e = currency_id item
        \<and> val e = sum_list (map debit_equiv (filter (\<lambda>b. origin_id b = origin_id item) incs)))
    \<and> (\<forall>e \<in> set outs. \<exists>item \<in> set exps.
          origin_id item \<noteq> 0 \<and> transfer_type e = transactionType item
        \<and> entry_currency_id e = currency_id item
        \<and> val e = sum_list (map credit_equiv (filter (\<lambda>b. origin_id b = origin_id item) exps)))"
proof -
  have i: "\<exists>item \<in> set incs.
          origin_id item \<noteq> 0 \<and> transfer_type e = transactionType item
        \<and> entry_currency_id e = currency_id item
        \<and> val e = sum_list (map debit_equiv (filter (\<lambda>b. origin_id b = origin_id item) incs))"
    if "e \<in> set (removeDuplicates [] (income_entries incs))" for e
  proof -
    from that removeDuplicates_subset have "e \<in> set (income_entries incs)"
      by blast
    then show ?thesis
      by (auto simp: income_entries_def income_value_total)
  qed
  have o: "\<exists>item \<in> set exps.
          origin_id item \<noteq> 0 \<and> transfer_type e = transactionType item
        \<and> entry_currency_id e = currency_id item
        \<and> val e = sum_list (map credit_equiv (filter (\<lambda>b. origin_id b = origin_id item) exps))"
    if "e \<in> set (removeDuplicates [] (expense_entries exps))" for e
  proof -
    from that removeDuplicates_subset have "e \<in> set (expense_entries exps)"
      by blast
    then show ?thesis
      by (auto simp: expense_entries_def expense_value_total)
  qed
  have "summationIncome (groupingResult S incs exps period) period
          = Some (removeDuplicates [] (income_entries incs))"
    and "summationExpense (groupingResult S incs exps period) period
          = Some (removeDuplicates [] (expense_entries exps))"
    by (simp_all add: groupingResult_def)
  with i o removeDuplicates_distinct show ?thesis
    by blast
qed

text \<open>
  Three incomes of a period, two of origin 1 and one of origin 2 under another label, and
  two expenses of origin 3: one entry per label, each with the total of its origin.
\<close>

theorem groupingResult_one_entry_per_label_witness:
  "summationIncome (groupingResult empty_session
       [ex_posting 7 1 50 0, ex_posting 7 1 30 0,
        (ex_posting 7 2 5 0)\<lparr>transactionType := ''PATIENT_INVOICE''\<rparr>]
       [ex_posting 7 3 0 20, ex_posting 7 3 0 4] 19783) 19783
     = Some [\<lparr>transfer_type = ''CASH_PAYMENT'', entry_currency_id = 1, val = 80\<rparr>,
             \<lparr>transfer_type = ''PATIENT_INVOICE'', entry_currency_id = 1, val = 5\<rparr>]
   \<and> summationExpense (groupingResult empty_session
       [ex_posting 7 1 50 0, ex_posting 7 1 30 0,
        (ex_posting 7 2 5 0)\<lparr>transactionType := ''PATIENT_INVOICE''\<rparr>]
       [ex_posting 7 3 0 20, ex_posting 7 3 0 4] 19783) 19783
     = Some [\<lparr>transfer_type = ''CASH_PAYMENT'', entry_currency_id = 1, val = 24\<rparr>]"
  using groupingResult_one_entry_per_label [of empty_session
       "[ex_posting 7 1 50 0, ex_posting 7 1 30 0,
        (ex_posting 7 2 5 0)\<lparr>transactionType := ''PATIENT_INVOICE''\<rparr>]"
       "[ex_posting 7 3 0 20, ex_posting 7 3 0 4]" 19783]
  by (simp add: groupingResult_def income_entries_def expense_entries_def income_value_def
      expense_value_def ex_posting_def object_prototype_keys_def)

section \<open>The running balance\<close>

lemma isFirstPeriod_reference: "periodStartArray S = ref # rest \<Longrightarrow> isFirstPeriod tz S ref"
  by (simp add: isFirstPeriod_def)

lemma indexOf_distinct_nth: "distinct xs \<Longrightarrow> i < length xs \<Longrightarrow> indexOf xs (xs ! i) = int i"
proof (induction xs arbitrary: i)
  case Nil
  then show ?case by simp
next
  case (Cons y ys)
  show ?case
  proof (cases i)
    case 0
    then show ?thesis by simp
  next
    case (Suc j)
    with Cons.prems have "ys ! j \<in> set ys" "y \<notin> set ys" "indexOf ys (ys ! j) = int j"
      using Cons.IH by simp_all
    then have "y \<noteq> ys ! j" by blast
    with Suc \<open>indexOf ys (ys ! j) = int j\<close> show ?thesis
      by (simp add: Let_def)
  qed
qed

lemma previousPeriod_nth:
  assumes "distinct (periodStartArray S)" and "i < length (periodStartArray S)" and "0 < i"
  shows "previousPeriod tz S (periodStartArray S ! i) = Some (periodStartArray S ! (i - 1))"
proof -
  have "nat (int i - 1) = i - 1" by simp
  with assms show ?thesis
    by (simp add: previousPeriod_def format_ymd_local_midnight indexOf_distinct_nth js_nth_def
        Let_def)
qed

text \<open>What \<open>summarization\<close> changes: the four maps at the given period, and the labels.\<close>

lemma summarization_keeps:
  "periodStartArray (summarization tz S k) = periodStartArray S"
  "openningBalance (summarization tz S k) = openningBalance S"
  "summationIncome (summarization tz S k) = summationIncome S"
  "summationExpense (summarization tz S k) = summationExpense S"
  "periodicData (summarization tz S k) = periodicData S"
  by (simp_all add: summarization_def Let_def)

lemma summarization_elsewhere:
  assumes "x \<noteq> k"
  shows "sum_incomes (summarization tz S k) x = sum_incomes S x"
    and "sum_expense (summarization tz S k) x = sum_expense S x"
    and "periodicBalance (summarization tz S k) x = periodicBalance S x"
    and "periodicOpenningBalance (summarization tz S k) x = periodicOpenningBalance S x"
  using assms by (simp_all add: summarization_def Let_def)

text \<open>Both helpers read the list of period starts only.\<close>

lemma isFirstPeriod_update:
  "isFirstPeriod tz (sum_incomes_update f1 S) k = isFirstPeriod tz S k"
  "isFirstPeriod tz (sum_expense_update f2 S) k = isFirstPeriod tz S k"
  "isFirstPeriod tz (incomesLabels_update f3 S) k = isFirstPeriod tz S k"
  "isFirstPeriod tz (expensesLabels_update f4 S) k = isFirstPeriod tz S k"
  "isFirstPeriod tz (periodicBalance_update f5 S) k = isFirstPeriod tz S k"
  "isFirstPeriod tz (periodicOpenningBalance_update f6 S) k = isFirstPeriod tz S k"
  by (simp_all add: isFirstPeriod_def)

lemma previousPeriod_update:
  "previousPeriod tz (sum_incomes_update f1 S) k = previousPeriod tz S k"
  "previousPeriod tz (sum_expense_update f2 S) k = previousPeriod tz S k"
  "previousPeriod tz (incomesLabels_update f3 S) k = previousPeriod tz S k"
  "previousPeriod tz (expensesLabels_update f4 S) k = previousPeriod tz S k"
  "previousPeriod tz (periodicBalance_update f5 S) k = previousPeriod tz S k"
  "previousPeriod tz (periodicOpenningBalance_update f6 S) k = previousPeriod tz S k"
  by (simp_all add: previousPeriod_def Let_def)

lemma isFirstPeriod_summarization:
  "isFirstPeriod tz (summarization tz S k) x = isFirstPeriod tz S x"
  by (simp add: isFirstPeriod_def summarization_keeps)

lemma summarization_first:
  assumes "isFirstPeriod tz S k"
  shows "\<exists>inc_sum exp_sum.
      sum_incomes (summarization tz S k) k = Some inc_sum
    \<and> sum_expense (summarization tz S k) k = Some exp_sum
    \<and> periodicOpenningBalance (summarization tz S k) k = Some (openningBalance S)
    \<and> periodicBalance (summarization tz S k) k = Some (openningBalance S + inc_sum - exp_sum)"
  using assms by (simp add: summarization_def Let_def isFirstPeriod_update)

lemma summarization_later:
  assumes "\<not> isFirstPeriod tz S k" and "previousPeriod tz S k = Some p" and "p \<noteq> k"
    and "periodicBalance S p = Some b"
  shows "\<exists>inc_sum exp_sum.
      sum_incomes (summarization tz S k) k = Some inc_sum
    \<and> sum_expense (summarization tz S k) k = Some exp_sum
    \<and> periodicOpenningBalance (summarization tz S k) k = Some b
    \<and> periodicBalance (summarization tz S k) k = Some (b + inc_sum - exp_sum)"
  using assms
  by (simp add: summarization_def Let_def isFirstPeriod_update previousPeriod_update
      balance_at_def)

lemma isFirstPeriod_same_list:
  "periodStartArray S' = periodStartArray S \<Longrightarrow> isFirstPeriod tz S' k = isFirstPeriod tz S k"
  by (simp add: isFirstPeriod_def)

text \<open>
  The loop over the periods, for a list of distinct period starts: after a prefix \<open>ks\<close> of
  the list has been summarized, every period of the prefix has its sums, its opening
  balance and its balance, related as stated.
\<close>

lemma summarize_prefix:
  assumes "periodStartArray S = ks @ rest" and "distinct (ks @ rest)"
  shows "periodStartArray (foldl (summarization tz) S ks) = periodStartArray S
    \<and> openningBalance (foldl (summarization tz) S ks) = openningBalance S
    \<and> (\<forall>i < length ks. \<exists>opening inc_sum exp_sum.
          periodicOpenningBalance (foldl (summarization tz) S ks) (ks ! i) = Some opening
        \<and> sum_incomes (foldl (summarization tz) S ks) (ks ! i) = Some inc_sum
        \<and> sum_expense (foldl (summarization tz) S ks) (ks ! i) = Some exp_sum
        \<and> periodicBalance (foldl (summarization tz) S ks) (ks ! i)
            = Some (opening + inc_sum - exp_sum)
        \<and> (if isFirstPeriod tz S (ks ! i) then opening = openningBalance S
           else 0 < i
              \<and> periodicBalance (foldl (summarization tz) S ks) (ks ! (i - 1)) = Some opening))"
  using assms
proof (induction ks arbitrary: rest rule: rev_induct)
  case Nil
  then show ?case by simp
next
  case (snoc k ks)
  define S' where "S' = foldl (summarization tz) S ks"
  define S'' where "S'' = summarization tz S' k"
  have fold: "foldl (summarization tz) S (ks @ [k]) = S''"
    by (simp add: S'_def S''_def)
  from snoc.prems have arr: "periodStartArray S = ks @ (k # rest)"
    and dist: "distinct (ks @ (k # rest))"
    by simp_all
  from snoc.IH [OF arr dist]
  have list': "periodStartArray S' = periodStartArray S"
    and ob': "openningBalance S' = openningBalance S"
    and ih: "\<And>i. i < length ks \<Longrightarrow> \<exists>opening inc_sum exp_sum.
          periodicOpenningBalance S' (ks ! i) = Some opening
        \<and> sum_incomes S' (ks ! i) = Some inc_sum
        \<and> sum_expense S' (ks ! i) = Some exp_sum
        \<and> periodicBalance S' (ks ! i) = Some (opening + inc_sum - exp_sum)
        \<and> (if isFirstPeriod tz S (ks ! i) then opening = openningBalance S
           else 0 < i \<and> periodicBalance S' (ks ! (i - 1)) = Some opening)"
    unfolding S'_def by blast+
  have list'': "periodStartArray S'' = periodStartArray S"
    and ob'': "openningBalance S'' = openningBalance S"
    by (simp_all add: S''_def summarization_keeps list' ob')
  have other: "x \<noteq> k" if "x \<in> set ks" for x
    using that dist by auto
  have step: "\<exists>opening inc_sum exp_sum.
          periodicOpenningBalance S'' ((ks @ [k]) ! i) = Some opening
        \<and> sum_incomes S'' ((ks @ [k]) ! i) = Some inc_sum
        \<and> sum_expense S'' ((ks @ [k]) ! i) = Some exp_sum
        \<and> periodicBalance S'' ((ks @ [k]) ! i) = Some (opening + inc_sum - exp_sum)
        \<and> (if isFirstPeriod tz S ((ks @ [k]) ! i) then opening = openningBalance S
           else 0 < i \<and> periodicBalance S'' ((ks @ [k]) ! (i - 1)) = Some opening)"
    if i: "i < length (ks @ [k])" for i
  proof (cases "i < length ks")
    case True
    then have x: "(ks @ [k]) ! i = ks ! i" "ks ! i \<noteq> k"
      using other by (simp_all add: nth_append)
    define q where "q = ks ! (i - 1)"
    from True have j: "i - 1 < length ks" by simp
    then have p: "(ks @ [k]) ! (i - 1) = q" "q \<noteq> k"
      using other by (simp_all add: nth_append q_def)
    from ih [OF True] obtain start inc_sum exp_sum where
      "periodicOpenningBalance S' (ks ! i) = Some start"
      "sum_incomes S' (ks ! i) = Some inc_sum"
      "sum_expense S' (ks ! i) = Some exp_sum"
      "periodicBalance S' (ks ! i) = Some (start + inc_sum - exp_sum)"
      "if isFirstPeriod tz S (ks ! i) then start = openningBalance S
       else 0 < i \<and> periodicBalance S' q = Some start"
      unfolding q_def by blast
    then show ?thesis
      unfolding x p S''_def
      by (simp add: summarization_elsewhere [OF x(2)] summarization_elsewhere [OF p(2)])
  next
    case False
    with i have i_eq: "i = length ks" by simp
    then have x: "(ks @ [k]) ! i = k" by simp
    have k_at: "periodStartArray S' ! i = k" "i < length (periodStartArray S')"
      "distinct (periodStartArray S')"
      using arr dist by (simp_all add: list' i_eq)
    show ?thesis
    proof (cases "isFirstPeriod tz S k")
      case True
      then have "isFirstPeriod tz S' k"
        by (simp add: isFirstPeriod_same_list [OF list'])
      from summarization_first [OF this] True show ?thesis
        unfolding x S''_def by (auto simp: ob')
    next
      case False
      have pos: "0 < i"
      proof (rule ccontr)
        assume "\<not> 0 < i"
        then have "ks = []" using i_eq by simp
        with arr have "isFirstPeriod tz S k"
          by (simp add: isFirstPeriod_reference)
        with False show False by simp
      qed
      define q where "q = ks ! (i - 1)"
      from pos have j: "i - 1 < length ks" using i_eq by simp
      have p: "(ks @ [k]) ! (i - 1) = q" "q \<noteq> k"
        using j other by (simp_all add: nth_append q_def)
      have "previousPeriod tz S' (periodStartArray S' ! i) = Some (periodStartArray S' ! (i - 1))"
        using k_at(3) k_at(2) pos by (rule previousPeriod_nth)
      moreover have "periodStartArray S' ! (i - 1) = q"
        using j by (simp add: list' arr nth_append q_def)
      ultimately have prev: "previousPeriod tz S' k = Some q"
        by (simp add: k_at(1))
      from ih [OF j] obtain b where b: "periodicBalance S' q = Some b"
        unfolding q_def by blast
      have nf: "\<not> isFirstPeriod tz S' k"
        using False by (simp add: isFirstPeriod_same_list [OF list'])
      from summarization_later [OF nf prev p(2) b] b False pos show ?thesis
        unfolding x p S''_def
        by (auto simp: summarization_elsewhere [OF p(2)])
    qed
  qed
  show ?case
    unfolding fold using list'' ob'' step by simp
qed

lemma groupingResult_keeps:
  "periodicData (groupingResult S incs exps k) = periodicData S"
  "openningBalance (groupingResult S incs exps k) = openningBalance S"
  "periodicBalance (groupingResult S incs exps k) = periodicBalance S"
  by (simp_all add: groupingResult_def)

lemma grouping_loop_keeps:
  "periodicData (foldl (\<lambda>s flow. groupingResult s (incomes flow) (expenses flow) (f flow)) S fl)
     = periodicData S
   \<and> openningBalance (foldl (\<lambda>s flow. groupingResult s (incomes flow) (expenses flow) (f flow)) S fl)
     = openningBalance S"
  by (induction fl arbitrary: S) (simp_all add: groupingResult_keeps)

text \<open>
  Claim C1, as amended. In the document pipeline, for period starts that are pairwise
  distinct days, every period has after \<open>reporting\<close> an opening balance, an income sum and
  an expense sum, and \<open>periodicBalance[period]\<close> is the opening balance plus \<open>sum_incomes\<close>
  minus \<open>sum_expense\<close> of the period. The opening balance is the pre-range opening balance
  of the rows when \<open>isFirstPeriod\<close> holds for the period, which is so for the first
  period; otherwise the period is not the first one and its opening balance is the
  \<open>periodicBalance\<close> of the period before it.
\<close>

theorem running_balance:
  assumes "distinct (map (period_key tz) (rows_flows rows))" and "i < length (rows_flows rows)"
  shows "\<exists>opening inc_sum exp_sum.
      periodicOpenningBalance (reporting tz S rows) (period_key tz (rows_flows rows ! i))
        = Some opening
    \<and> sum_incomes (reporting tz S rows) (period_key tz (rows_flows rows ! i)) = Some inc_sum
    \<and> sum_expense (reporting tz S rows) (period_key tz (rows_flows rows ! i)) = Some exp_sum
    \<and> periodicBalance (reporting tz S rows) (period_key tz (rows_flows rows ! i))
        = Some (opening + inc_sum - exp_sum)
    \<and> (if isFirstPeriod tz (reporting tz S rows) (period_key tz (rows_flows rows ! i))
       then opening = rows_openningBalance rows
       else 0 < i
          \<and> periodicBalance (reporting tz S rows) (period_key tz (rows_flows rows ! (i - 1)))
              = Some opening)
    \<and> (i = 0 \<longrightarrow>
         isFirstPeriod tz (reporting tz S rows) (period_key tz (rows_flows rows ! i)))"
proof -
  define fl where "fl = rows_flows rows"
  define ks where "ks = map (period_key tz) fl"
  define S1 where "S1 = (initialization S)\<lparr>periodicData := fl,
      openningBalance := rows_openningBalance rows\<rparr>"
  define S2 where "S2 = foldl (\<lambda>s flow. groupingResult s (incomes flow) (expenses flow)
      (period_key tz flow)) S1 fl"
  define S3 where "S3 = S2\<lparr>periodStartArray := ks\<rparr>"
  define S4 where "S4 = foldl (summarization tz) S3 ks"
  have d1: "periodicData S1 = fl"
    by (simp add: S1_def)
  have d2: "periodicData S2 = fl" and o2: "openningBalance S2 = rows_openningBalance rows"
    using grouping_loop_keeps [of "period_key tz" S1 fl] by (simp_all add: S2_def S1_def)
  have s3: "periodStartArray S3 = ks @ []" "openningBalance S3 = rows_openningBalance rows"
    "periodicData S3 = fl"
    by (simp_all add: S3_def d2 o2)
  have loop: "foldl (\<lambda>s flow. summarization tz s (period_key tz flow)) S3 fl = S4"
    by (simp add: S4_def ks_def foldl_map)
  have r: "reporting tz S rows = S4\<lparr>periodRange :=
      map (\<lambda>flow. (format_ymd tz (Moment tz (start_date (g_period flow))),
                   format_ymd tz (Moment tz (end_date (g_period flow))))) (periodicData S4)\<rparr>"
    unfolding reporting_def Let_def fl_def [symmetric] S1_def [symmetric] d1
      S2_def [symmetric] d2 ks_def [symmetric] S3_def [symmetric] s3(3) loop
    by (rule refl)
  have dist: "distinct (ks @ [])" and i: "i < length ks" and key: "ks ! i = period_key tz (fl ! i)"
    and prev: "0 < i \<Longrightarrow> ks ! (i - 1) = period_key tz (fl ! (i - 1))"
    using assms by (simp_all add: ks_def fl_def)
  from summarize_prefix [OF s3(1) dist, of tz]
  have l4: "periodStartArray S4 = periodStartArray S3"
    and inv: "\<exists>opening inc_sum exp_sum.
          periodicOpenningBalance S4 (ks ! i) = Some opening
        \<and> sum_incomes S4 (ks ! i) = Some inc_sum
        \<and> sum_expense S4 (ks ! i) = Some exp_sum
        \<and> periodicBalance S4 (ks ! i) = Some (opening + inc_sum - exp_sum)
        \<and> (if isFirstPeriod tz S3 (ks ! i) then opening = openningBalance S3
           else 0 < i \<and> periodicBalance S4 (ks ! (i - 1)) = Some opening)"
    using i unfolding S4_def by blast+
  have f: "isFirstPeriod tz (reporting tz S rows) x = isFirstPeriod tz S3 x" for x
    by (rule isFirstPeriod_same_list) (simp add: r l4)
  have first: "isFirstPeriod tz S3 (ks ! i)" if "i = 0"
  proof -
    from i that obtain rest where "ks = ks ! i # rest"
      by (cases ks) simp_all
    then have "periodStartArray S3 = ks ! i # rest"
      using s3(1) by simp
    then show ?thesis by (rule isFirstPeriod_reference)
  qed
  from inv first prev show ?thesis
    unfolding f fl_def [symmetric] key [symmetric]
    by (auto simp: r s3(2))
qed

text \<open>
  Two reports evaluated: periods from 2023-01-01 (day 19358) and 2023-02-01 (day 19389),
  and periods from 2023-01-01 and 2024-01-01 (day 19723), on a server at UTC.
\<close>

lemma new_year_days:
  "civil_from_days 19358 = (2023, 1, 1)" "civil_from_days 19389 = (2023, 2, 1)"
  "civil_from_days 19723 = (2024, 1, 1)"
  by code_simp+

lemma report_jan_feb:
  "let R = reporting 0 empty_session (ex_rows 1672531200000 1675209600000) in
     periodStartArray R = [19358, 19389]
   \<and> periodicBalance R 19358 = Some 400
   \<and> periodicOpenningBalance R 19389 = Some 400
   \<and> periodicBalance R 19389 = Some 300
   \<and> sum_incomes R 19389 = Some 300 \<and> sum_expense R 19389 = Some 400"
  by (simp add: reporting_def initialization_def empty_session_def ex_rows_def ex_posting_def
      groupingResult_def income_entries_def expense_entries_def income_value_def
      expense_value_def object_prototype_keys_def summarization_def entries_at_def
      isFirstPeriod_def previousPeriod_def balance_at_def js_nth_def getDate_def getMonth_def
      getYear_def getFullYear_def format_ymd_def DAY_def period_key_def Let_def new_year_days)

lemma report_two_years:
  "let R = reporting 0 empty_session (ex_rows 1672531200000 1704067200000) in
     periodStartArray R = [19358, 19723]
   \<and> periodicBalance R 19358 = Some 400
   \<and> periodicOpenningBalance R 19723 = Some 100
   \<and> periodicBalance R 19723 = Some 0"
  by (simp add: reporting_def initialization_def empty_session_def ex_rows_def ex_posting_def
      groupingResult_def income_entries_def expense_entries_def income_value_def
      expense_value_def object_prototype_keys_def summarization_def entries_at_def
      isFirstPeriod_def previousPeriod_def balance_at_def js_nth_def getDate_def getMonth_def
      getYear_def getFullYear_def format_ymd_def DAY_def period_key_def Let_def new_year_days)

lemma ex_rows_keys:
  "period_key 0 (rows_flows (ex_rows 1672531200000 b) ! 0) = 19358"
  "period_key 0 (rows_flows (ex_rows a 1675209600000) ! 1) = 19389"
  "period_key 0 (rows_flows (ex_rows a 1704067200000) ! 1) = 19723"
  "period_key 0 (rows_flows (ex_rows a 1675209600000) ! Suc 0) = 19389"
  "period_key 0 (rows_flows (ex_rows a 1704067200000) ! Suc 0) = 19723"
  by (simp_all add: ex_rows_def period_key_def format_ymd_def DAY_def)

text \<open>
  The scenario of the specification: January and February 2023, opening balance 100.
  January closes at 400; February is not a first period, opens at 400 and closes at 300.
\<close>

theorem running_balance_witness:
  "\<not> isFirstPeriod 0 (reporting 0 empty_session (ex_rows 1672531200000 1675209600000))
       (period_key 0 (rows_flows (ex_rows 1672531200000 1675209600000) ! 1))
   \<and> periodicBalance (reporting 0 empty_session (ex_rows 1672531200000 1675209600000))
       (period_key 0 (rows_flows (ex_rows 1672531200000 1675209600000) ! 0)) = Some 400
   \<and> periodicOpenningBalance (reporting 0 empty_session (ex_rows 1672531200000 1675209600000))
       (period_key 0 (rows_flows (ex_rows 1672531200000 1675209600000) ! 1)) = Some 400
   \<and> periodicBalance (reporting 0 empty_session (ex_rows 1672531200000 1675209600000))
       (period_key 0 (rows_flows (ex_rows 1672531200000 1675209600000) ! 1)) = Some 300"
proof -
  have a: "distinct (map (period_key 0) (rows_flows (ex_rows 1672531200000 1675209600000)))"
    by (simp add: ex_rows_def period_key_def format_ymd_def DAY_def)
  have b: "1 < length (rows_flows (ex_rows 1672531200000 1675209600000))"
    by (simp add: ex_rows_def)
  have n: "\<not> isFirstPeriod 0 (reporting 0 empty_session (ex_rows 1672531200000 1675209600000))
      19389"
    using report_jan_feb
    by (simp add: Let_def isFirstPeriod_def getDate_def getMonth_def getYear_def
        getFullYear_def format_ymd_def DAY_def new_year_days)
  from running_balance [OF a b, of empty_session] n report_jan_feb show ?thesis
    by (simp add: Let_def ex_rows_keys)
qed

text \<open>
  The claim as it was stated fails, on a server at UTC, when a later period starts on a
  1 January and the first one does too: with periods from 2023-01-01 and from 2024-01-01,
  the first period closes at 400 and the second opens at the pre-range balance 100.
\<close>

theorem running_balance_counterexample:
  "period_key 0 (rows_flows (ex_rows 1672531200000 1704067200000) ! 0) = 19358
   \<and> period_key 0 (rows_flows (ex_rows 1672531200000 1704067200000) ! 1) = 19723
   \<and> civil_from_days 19358 = (2023, 1, 1) \<and> civil_from_days 19723 = (2024, 1, 1)
   \<and> periodicBalance (reporting 0 empty_session (ex_rows 1672531200000 1704067200000)) 19358
       = Some 400
   \<and> periodicOpenningBalance (reporting 0 empty_session (ex_rows 1672531200000 1704067200000))
       19723 = Some 100
   \<and> periodicOpenningBalance (reporting 0 empty_session (ex_rows 1672531200000 1704067200000))
       19723
     \<noteq> periodicBalance (reporting 0 empty_session (ex_rows 1672531200000 1704067200000)) 19358"
  using report_two_years by (simp add: Let_def ex_rows_keys new_year_days)

section \<open>Bad date intervals\<close>

text \<open>
  In calendar mode the error of the empty period list is raised, as a rejection, after the
  period lookup and before any other query.
\<close>

lemma no_period_rejects:
  assumes "truthy (account_id ps)"
  shows "fst (processingCashflowReport tz d ps)
           = Rejects (BadRequest ''Periods not found due to a bad date interval''
                        ''ERRORS.BAD_DATE_INTERVAL'')
         \<longleftrightarrow> getPeriods tz d (format_ymd tz (Moment tz (dateFrom ps)))
               (format_ymd tz (Moment tz (dateTo ps))) = []"
  using assms by (simp add: processingCashflowReport_def Let_def split: list.splits)

lemma periods_of_reversed_range: "getPeriods 0 ex_db 19802 19787 = [ex_period]"
  by (simp add: getPeriods_def ex_db_def ex_period_def sql_DATE_def format_ymd_def DAY_def)

text \<open>
  Claim C3. A request whose \<open>dateFrom\<close> (2024-03-20, day 19802) is after its \<open>dateTo\<close>
  (2024-03-05, day 19787) is not rejected. In weekly mode \<open>getWeeks\<close> resolves the week of
  \<open>dateFrom\<close>, and the report has that one period, starting at \<open>dateFrom\<close>, with no
  posting. In calendar mode the lookup resolves the period that contains the two dates, and
  the report has that period with the postings of the ledger query.
\<close>

theorem reversed_interval_is_not_rejected:
  "processingWeekCashflow 0 ex_db (ex_params 19802 19787)
     = (Resolves \<lparr>rows_openningBalance = 100,
                  rows_flows = [\<lparr>g_period = \<lparr>id_field = None, week = Some 1,
                                              start_date = DateStr 19802,
                                              end_date = DateObj 1711238399999\<rparr>,
                                  incomes = [], expenses = []\<rparr>]\<rparr>,
        [GetOpeningBalance ''3627'' (DateStr 19802), QueryIncomeExpense ''3627'' 19802 19787])
   \<and> processingCashflowReport 0 ex_db (ex_params 19802 19787)
     = (Resolves \<lparr>rows_openningBalance = 100,
                  rows_flows = [\<lparr>g_period = ex_period,
                                  incomes = [ex_posting 7 1 50 0],
                                  expenses = [ex_posting 7 2 0 20]\<rparr>]\<rparr>,
        [GetPeriods 19802 19787, GetOpeningBalance ''3627'' (start_date ex_period),
         QueryIncomeExpense ''3627'' 19802 19787])"
proof -
  have w: "processingWeekCashflow 0 ex_db (ex_params 19802 19787)
     = (Resolves \<lparr>rows_openningBalance = 100,
                  rows_flows = [\<lparr>g_period = \<lparr>id_field = None, week = Some 1,
                                              start_date = DateStr 19802,
                                              end_date = DateObj 1711238399999\<rparr>,
                                  incomes = [], expenses = []\<rparr>]\<rparr>,
        [GetOpeningBalance ''3627'' (DateStr 19802), QueryIncomeExpense ''3627'' 19802 19787])"
    by (simp add: processingWeekCashflow_def ex_params_def truthy_def format_ymd_def DAY_def
        weeks_of_reversed_range ex_db_def queryIncomeExpense_def groupByPeriod_def
        in_period_def groupingIncomeExpenseByPeriod_def ex_posting_def Let_def)
  have c: "processingCashflowReport 0 ex_db (ex_params 19802 19787)
     = (Resolves \<lparr>rows_openningBalance = 100,
                  rows_flows = [\<lparr>g_period = ex_period,
                                  incomes = [ex_posting 7 1 50 0],
                                  expenses = [ex_posting 7 2 0 20]\<rparr>]\<rparr>,
        [GetPeriods 19802 19787, GetOpeningBalance ''3627'' (start_date ex_period),
         QueryIncomeExpense ''3627'' 19802 19787])"
    using periods_of_reversed_range
    by (simp add: processingCashflowReport_def ex_params_def truthy_def format_ymd_def DAY_def
        queryIncomeExpense_def groupByPeriod_def in_period_def
        groupingIncomeExpenseByPeriod_def Let_def)
      (simp add: ex_db_def ex_posting_def ex_period_def)
  from w c show ?thesis by (rule conjI)
qed

end
